theory Spec2Isabelle
  imports Main "HOL-Library.Word" "HOL-Library.Code_Target_Numeral"
begin

unbundle bit_operations_syntax

section \<open>C values shared by the fixtures\<close>

type_synonym byte = "8 word"

text \<open>A \<^verbatim>\<open>const char*\<close> argument is either \<^verbatim>\<open>NULL\<close> (\<open>None\<close>) or points to the
  characters before the terminating NUL (\<open>Some s\<close>).\<close>

type_synonym c_string = "string option"

definition byte_of_char :: "char \<Rightarrow> byte" where
  "byte_of_char c = of_char c"

definition bytes_of :: "string \<Rightarrow> byte list" where
  "bytes_of s = map byte_of_char s"

text \<open>\<^verbatim>\<open>int\<close> is 32 bits wide. \<open>wrap_int\<close> is the value an \<^verbatim>\<open>int\<close> expression has after
  two's complement wrap-around, \<open>size_t_of\<close> the conversion of an \<^verbatim>\<open>int\<close> to the 64-bit
  \<^verbatim>\<open>size_t\<close> that \<^verbatim>\<open>malloc\<close> takes.\<close>

definition INT_MAX :: int where
  "INT_MAX = 2147483647"

definition PTRDIFF_MAX :: nat where
  "PTRDIFF_MAX = 9223372036854775807"

definition wrap_int :: "int \<Rightarrow> int" where
  "wrap_int x = (x + 2147483648) mod 4294967296 - 2147483648"

definition size_t_of :: "int \<Rightarrow> nat" where
  "size_t_of x = nat (x mod 18446744073709551616)"

text \<open>\<^verbatim>\<open>malloc\<close> belongs to the C library, so it is a parameter of every routine that calls
  it: \<open>malloc n\<close> is \<open>None\<close> when the allocation fails and otherwise the block, with
  whatever bytes it happens to hold. \<open>malloc_ok\<close> is the library's contract: a block has
  the size asked for, and no block is larger than \<^verbatim>\<open>PTRDIFF_MAX\<close> bytes.\<close>

type_synonym allocator = "nat \<Rightarrow> byte list option"

definition malloc_ok :: "allocator \<Rightarrow> bool" where
  "malloc_ok malloc \<longleftrightarrow> (\<forall>n blk. malloc n = Some blk \<longrightarrow> length blk = n \<and> n \<le> PTRDIFF_MAX)"

text \<open>An access outside an object and the use of a null pointer as a string have no
  defined behaviour in C; the model stops there.\<close>

datatype fault = Out_Of_Bounds | Null_Dereference

section \<open>String encryption: the injected decryption routine\<close>

text \<open>\<^verbatim>\<open>simple_auth_obfuscated.c\<close>, \<^verbatim>\<open>_decrypt_xor\<close>:
  \<^verbatim>\<open>
  char* dec = (char*)malloc(len + 1);
  if (!dec) return NULL;
  for (int i = 0; i < len; i++) { dec[i] = enc[i] ^ key; }
  dec[len] = '\0';
  return dec;
  \<close>
  \<open>xor_loop\<close> is the \<^verbatim>\<open>for\<close> loop from index \<open>i\<close> on.\<close>

function xor_loop :: "byte list \<Rightarrow> byte \<Rightarrow> int \<Rightarrow> nat \<Rightarrow> byte list \<Rightarrow> fault + byte list" where
  "xor_loop enc key len i dec =
     (if int i < len then
        (if i < length enc \<and> i < length dec
         then xor_loop enc key len (Suc i) (dec[i := enc ! i XOR key])
         else Inl Out_Of_Bounds)
      else Inr dec)"
  by pat_completeness auto
termination
  by (relation "measure (\<lambda>(enc, key, len, i, dec). nat (len - int i))") auto

declare xor_loop.simps [simp del]

definition alloc_request :: "int \<Rightarrow> nat" where
  "alloc_request len = size_t_of (wrap_int (len + 1))"

definition decrypt_xor :: "allocator \<Rightarrow> byte list \<Rightarrow> int \<Rightarrow> byte \<Rightarrow> fault + byte list option" where
  "decrypt_xor malloc enc len key =
     (case malloc (alloc_request len) of
        None \<Rightarrow> Inr None
      | Some dec \<Rightarrow>
          (case xor_loop enc key len 0 dec of
             Inl f \<Rightarrow> Inl f
           | Inr dec' \<Rightarrow>
               if 0 \<le> len \<and> nat len < length dec'
               then Inr (Some (dec'[nat len := 0]))
               else Inl Out_Of_Bounds))"

text \<open>\<^verbatim>\<open>_decrypt_string\<close> (\<^verbatim>\<open>simple_auth_encrypted.c\<close>, \<^verbatim>\<open>license_validator_protected.c\<close>,
  \<^verbatim>\<open>license_validator_level2.c\<close>) and \<^verbatim>\<open>_xor_decrypt\<close> (\<^verbatim>\<open>test_api_simple_string_encrypted.c\<close>)
  have the body of \<^verbatim>\<open>_decrypt_xor\<close> statement for statement; only the name of the local
  buffer differs.\<close>

definition decrypt_string :: "allocator \<Rightarrow> byte list \<Rightarrow> int \<Rightarrow> byte \<Rightarrow> fault + byte list option" where
  "decrypt_string = decrypt_xor"

definition xor_decrypt :: "allocator \<Rightarrow> byte list \<Rightarrow> int \<Rightarrow> byte \<Rightarrow> fault + byte list option" where
  "xor_decrypt = decrypt_xor"

text \<open>Modelled from the spec: the String Encryptor's encryption step is not among the
  sources; the spec gives it as \<^verbatim>\<open>ciphertext = literal[i] XOR key\<close> for each byte. The
  comment above \<^verbatim>\<open>_encrypted_password\<close> in \<^verbatim>\<open>simple_auth_obfuscated.c\<close> lists the bytes of
  its ciphertext in this form (\<^verbatim>\<open>'a'^0xAB = 0xCA\<close>, ...).\<close>

definition encrypt :: "byte list \<Rightarrow> byte \<Rightarrow> byte list" where
  "encrypt literal key = map (\<lambda>b. b XOR key) literal"

section \<open>String encryption: the fixtures that call the routine\<close>

text \<open>\<^verbatim>\<open>strcmp\<close>, on the bytes from each pointer on. The end of a list stands for the
  terminating NUL; the result is the sign of the first difference, the bytes compared
  as \<^verbatim>\<open>unsigned char\<close>.\<close>

fun strcmp :: "byte list \<Rightarrow> byte list \<Rightarrow> int" where
  "strcmp [] [] = 0"
| "strcmp [] (y # ys) = (if y = 0 then 0 else - 1)"
| "strcmp (x # xs) [] = (if x = 0 then 0 else 1)"
| "strcmp (x # xs) (y # ys) =
     (if x \<noteq> y then (if x < y then - 1 else 1)
      else if x = 0 then 0
      else strcmp xs ys)"

text \<open>\<^verbatim>\<open>simple_auth.c\<close>: the function before the transformation.\<close>

definition SECRET_PASSWORD :: string where
  "SECRET_PASSWORD = ''admin123''"

definition check_password :: "c_string \<Rightarrow> int" where
  "check_password input =
     (case input of
        None \<Rightarrow> 0
      | Some s \<Rightarrow> if strcmp (bytes_of s) (bytes_of SECRET_PASSWORD) = 0 then 1 else 0)"

text \<open>\<^verbatim>\<open>simple_auth_obfuscated.c\<close>: the literal is replaced by its ciphertext and decrypted
  on every call. \<^verbatim>\<open>_secure_free\<close> zeroes the buffer up to its NUL and releases it; it
  returns nothing and the buffer is not read again, so the result does not depend on it.\<close>

definition encrypted_password :: "byte list" where
  "encrypted_password = [0xCA, 0xCF, 0xC6, 0xC2, 0xC5, 0x9A, 0x99, 0x98]"

definition check_password_obfuscated :: "allocator \<Rightarrow> c_string \<Rightarrow> fault + int" where
  "check_password_obfuscated malloc input =
     (case input of
        None \<Rightarrow> Inr 0
      | Some s \<Rightarrow>
          (case decrypt_xor malloc encrypted_password 8 0xAB of
             Inl f \<Rightarrow> Inl f
           | Inr None \<Rightarrow> Inr 0
           | Inr (Some secret) \<Rightarrow> Inr (if strcmp (bytes_of s) secret = 0 then 1 else 0)))"

text \<open>\<^verbatim>\<open>test_api_simple_string_encrypted.c\<close>: two global pointers, filled by a constructor
  that runs before \<^verbatim>\<open>main\<close>, and printed by \<^verbatim>\<open>main\<close> with \<^verbatim>\<open>%s\<close>. Passing a null pointer
  for \<^verbatim>\<open>%s\<close> has no defined behaviour.\<close>

record globals =
  API_KEY :: "byte list option"
  DB_PASSWORD :: "byte list option"

definition init_encrypted_strings :: "allocator \<Rightarrow> globals \<Rightarrow> fault + globals" where
  "init_encrypted_strings malloc g =
     (case xor_decrypt malloc
             [0xec, 0xfa, 0xfc, 0xed, 0xfa, 0xeb, 0xc0, 0xfe, 0xef, 0xf6,
              0xc0, 0xf4, 0xfa, 0xe6, 0xc0, 0xae, 0xad, 0xac, 0xab, 0xaa] 20 0x9f of
        Inl f \<Rightarrow> Inl f
      | Inr p \<Rightarrow>
          (case xor_decrypt malloc
                  [0x89, 0x8f, 0xb2, 0x9d, 0x8c, 0x9e, 0x9e, 0xb2, 0x9d,
                   0x9f, 0x82, 0x89, 0xb2, 0xdf, 0xdd, 0xdf, 0xd9] 17 0xed of
             Inl f \<Rightarrow> Inl f
           | Inr q \<Rightarrow> Inr (g\<lparr>API_KEY := p, DB_PASSWORD := q\<rparr>)))"

definition char_of_byte :: "byte \<Rightarrow> char" where
  "char_of_byte b = char_of (unat b)"

definition printf_s :: "string \<Rightarrow> byte list option \<Rightarrow> string \<Rightarrow> fault + string" where
  "printf_s lead arg rest =
     (case arg of
        None \<Rightarrow> Inl Null_Dereference
      | Some buf \<Rightarrow> Inr (lead @ map char_of_byte (takeWhile (\<lambda>b. b \<noteq> 0) buf) @ rest))"

definition test_api_main :: "globals \<Rightarrow> fault + string list \<times> int" where
  "test_api_main g =
     (case printf_s ''API Key: '' (API_KEY g) ''\<newline>'' of
        Inl f \<Rightarrow> Inl f
      | Inr line1 \<Rightarrow>
          (case printf_s ''DB Pass: '' (DB_PASSWORD g) ''\<newline>'' of
             Inl f \<Rightarrow> Inl f
           | Inr line2 \<Rightarrow> Inr ([line1, line2], 0)))"

text \<open>The process: both globals start as \<^verbatim>\<open>NULL\<close>, the constructor runs, then \<^verbatim>\<open>main\<close>.\<close>

definition test_api_process :: "allocator \<Rightarrow> fault + string list \<times> int" where
  "test_api_process malloc =
     (case init_encrypted_strings malloc \<lparr>API_KEY = None, DB_PASSWORD = None\<rparr> of
        Inl f \<Rightarrow> Inl f
      | Inr g \<Rightarrow> test_api_main g)"

section \<open>The license validator before the transformations\<close>

text \<open>\<^verbatim>\<open>license_validator.c\<close>. What a function prints is returned with its result: the
  list holds the strings passed to \<^verbatim>\<open>printf\<close>, in order.\<close>

definition MASTER_KEY :: string where
  "MASTER_KEY = ''ACME-2024-PROF-XXXX''"

definition KEY_LENGTH :: nat where
  "KEY_LENGTH = 19"

definition strlen :: "string \<Rightarrow> nat" where
  "strlen s = length (takeWhile (\<lambda>c. c \<noteq> CHR 0x00) s)"

text \<open>Plain \<^verbatim>\<open>char\<close> is signed: \<open>char_value\<close> is the \<^verbatim>\<open>int\<close> a character is promoted to.\<close>

definition char_value :: "char \<Rightarrow> int" where
  "char_value c = (if (of_char c :: nat) < 128 then of_char c else of_char c - 256)"

definition is_digit :: "char \<Rightarrow> bool" where
  "is_digit c \<longleftrightarrow> char_value c \<ge> 48 \<and> char_value c \<le> 57"

definition digit_value :: "char \<Rightarrow> int" where
  "digit_value c = char_value c - 48"

text \<open>The loop \<^verbatim>\<open>for (int i = 0; i < KEY_LENGTH; i++)\<close> from index \<open>i\<close> on; it runs only
  after the length was found to be \<^verbatim>\<open>KEY_LENGTH\<close>, so every index is inside the key.\<close>

function digit_sum_loop :: "string \<Rightarrow> nat \<Rightarrow> int \<Rightarrow> int" where
  "digit_sum_loop user_key i acc =
     (if i < KEY_LENGTH
      then digit_sum_loop user_key (Suc i)
             (if is_digit (user_key ! i) then acc + digit_value (user_key ! i) else acc)
      else acc)"
  by pat_completeness auto
termination
  by (relation "measure (\<lambda>(user_key, i, acc). KEY_LENGTH - i)") auto

declare digit_sum_loop.simps [simp del]

definition validate_license_key :: "c_string \<Rightarrow> string list \<times> int" where
  "validate_license_key user_key =
     (case user_key of
        None \<Rightarrow> ([], 0)
      | Some k \<Rightarrow>
          if strlen k \<noteq> KEY_LENGTH then ([''Invalid key length\<newline>''], 0)
          else if k ! 4 \<noteq> CHR ''-'' \<or> k ! 9 \<noteq> CHR ''-'' \<or> k ! 14 \<noteq> CHR ''-''
            then ([''Invalid key format\<newline>''], 0)
          else if strcmp (bytes_of k) (bytes_of MASTER_KEY) = 0
            then ([''License valid - Professional edition activated\<newline>''], 1)
          else if digit_sum_loop k 0 0 = 42
            then ([''License valid - Special edition activated\<newline>''], 1)
          else ([''Invalid license key\<newline>''], 0))"

section \<open>Opaque predicates\<close>

text \<open>The guards the protected fixtures inject, each as a function of what it reads.
  \<^verbatim>\<open>%\<close> on \<^verbatim>\<open>int\<close> truncates towards zero (\<open>c_rem\<close>). A pointer is null or an address;
  the cast \<^verbatim>\<open>(int)&main\<close> keeps the low 32 bits of the address (\<open>wrap_int\<close>).\<close>

definition c_rem :: "int \<Rightarrow> int \<Rightarrow> int" where
  "c_rem a b = sgn a * (\<bar>a\<bar> mod \<bar>b\<bar>)"

datatype pointer = Null | Address nat

definition int_to_pointer :: "int \<Rightarrow> pointer" where
  "int_to_pointer n = (if n = 0 then Null else Address (size_t_of n))"

definition pointer_to_int :: "pointer \<Rightarrow> int" where
  "pointer_to_int q = (case q of Null \<Rightarrow> 0 | Address a \<Rightarrow> wrap_int (int a))"

text \<open>\<^verbatim>\<open>if ((rand() % 4 >= 4))\<close>, with \<open>r\<close> the value \<^verbatim>\<open>rand()\<close> returned.\<close>

definition opaque_rand :: "int \<Rightarrow> bool" where
  "opaque_rand r \<longleftrightarrow> c_rem r 4 \<ge> 4"

text \<open>\<^verbatim>\<open>if (((int*)0 != NULL))\<close>.\<close>

definition opaque_null_cast :: bool where
  "opaque_null_cast \<longleftrightarrow> int_to_pointer 0 \<noteq> Null"

text \<open>\<^verbatim>\<open>volatile int _v = c; if (_v < 0 && _v > 0)\<close>, with \<open>v\<close> the value the local holds.\<close>

definition opaque_volatile :: "int \<Rightarrow> bool" where
  "opaque_volatile v \<longleftrightarrow> v < 0 \<and> v > 0"

text \<open>\<^verbatim>\<open>int _fake_var = c; if (_fake_var > bound)\<close>.\<close>

definition opaque_fake_var :: "int \<Rightarrow> int \<Rightarrow> bool" where
  "opaque_fake_var c bound \<longleftrightarrow> c > bound"

text \<open>\<^verbatim>\<open>int _x = (int)&main; if (_x == 0)\<close>, with \<open>a\<close> the address of \<^verbatim>\<open>main\<close>.\<close>

definition opaque_main_address :: "nat \<Rightarrow> bool" where
  "opaque_main_address a \<longleftrightarrow> pointer_to_int (Address a) = 0"

section \<open>The flattened functions of the protected fixtures\<close>

text \<open>A flattened function keeps \<^verbatim>\<open>_state\<close>, \<^verbatim>\<open>_next_state\<close> and \<^verbatim>\<open>_ret_val\<close> (not
  initialised at its declaration) and dispatches on \<^verbatim>\<open>_state\<close> in a \<^verbatim>\<open>switch\<close> inside
  \<^verbatim>\<open>while (1)\<close>. The two fixtures are read as their braces nest. In each, case 1 begins
  with the opening line of the \<^verbatim>\<open>if\<close> the state was cut from, and nothing closes that
  \<^verbatim>\<open>if\<close> where it should end: it takes the brace written for the \<^verbatim>\<open>switch\<close>, the
  \<^verbatim>\<open>switch\<close> takes the brace written for the loop, and the loop takes the brace written
  for the function. The function therefore is
  \<^verbatim>\<open>
  while (1) {
      switch (_state) {
      case 0: ... break;
      ...
      case 1: if (c) { <branch> break;  case ...: ... break;  default: goto _exit; }
      _state = _next_state;
      }
  _exit:
      return _ret_val;
  }
  \<close>
  followed by the rest of the original body, which is never reached. The cases written
  after the open \<^verbatim>\<open>if\<close> lie inside its block and are entered by the jump of the
  \<^verbatim>\<open>switch\<close>; \<^verbatim>\<open>_state = _next_state;\<close> is the last statement of the \<^verbatim>\<open>switch\<close>, reached
  only when case 1 skips the block; and the statement after the \<^verbatim>\<open>switch\<close> is the
  \<^verbatim>\<open>return\<close> at the label \<^verbatim>\<open>_exit\<close>. No compiler accepts either file as it stands (the
  protected file names \<^verbatim>\<open>main\<close> ahead of its declaration, the other has a condition that
  is cut off); each statement is given the meaning it has in C. What the platform
  supplies is a parameter: the value \<^verbatim>\<open>rand()\<close> returns and the address of \<^verbatim>\<open>main\<close>.\<close>

record platform =
  rand_result :: int
  main_address :: nat

record flat =
  state :: int
  next_state :: int
  ret_val :: "int option"

datatype outcome = Returned int | Returned_Indeterminate | Aborted | Exited int | Freed_Invalid

text \<open>What a \<^verbatim>\<open>switch\<close> or a loop body does: it prints, and then either control goes on
  behind it with the variables as they are (\<open>Inl\<close>), or the function has been left
  (\<open>Inr\<close>).\<close>

type_synonym iteration = "string list \<times> (flat + outcome)"

text \<open>\<^verbatim>\<open>break;\<close> leaves the \<^verbatim>\<open>switch\<close>, and \<^verbatim>\<open>goto _exit;\<close> jumps to the label that
  stands right behind it.\<close>

definition break_switch :: "flat \<Rightarrow> iteration" where
  "break_switch m = ([], Inl m)"

definition goto_exit :: "flat \<Rightarrow> iteration" where
  "goto_exit m = ([], Inl m)"

text \<open>\<^verbatim>\<open>_exit: return _ret_val;\<close>, where \<^verbatim>\<open>_ret_val\<close> has no value unless a state assigned
  one.\<close>

definition exit_label :: "flat \<Rightarrow> outcome" where
  "exit_label m = (case ret_val m of None \<Rightarrow> Returned_Indeterminate | Some v \<Rightarrow> Returned v)"

text \<open>The body of \<^verbatim>\<open>while (1)\<close>: the \<^verbatim>\<open>switch\<close>, then the statement at \<^verbatim>\<open>_exit\<close>.\<close>

definition loop_body :: "(flat \<Rightarrow> iteration) \<Rightarrow> flat \<Rightarrow> iteration" where
  "loop_body switch m =
     (case switch m of
        (printed, Inr r) \<Rightarrow> (printed, Inr r)
      | (printed, Inl m') \<Rightarrow> (printed, Inr (exit_label m')))"

text \<open>The loop, for at most \<open>fuel\<close> iterations: \<open>None\<close> when the function has not
  returned by then. \<open>states_entered\<close> lists the values \<^verbatim>\<open>_state\<close> has at the \<^verbatim>\<open>switch\<close>
  in these iterations.\<close>

fun run_flat :: "(flat \<Rightarrow> iteration) \<Rightarrow> nat \<Rightarrow> flat \<Rightarrow> (string list \<times> outcome) option" where
  "run_flat body 0 m = None"
| "run_flat body (Suc fuel) m =
     (case body m of
        (printed, Inr r) \<Rightarrow> Some (printed, r)
      | (printed, Inl m') \<Rightarrow>
          (case run_flat body fuel m' of
             None \<Rightarrow> None
           | Some (printed', r) \<Rightarrow> Some (printed @ printed', r)))"


definition flat_init :: flat where
  "flat_init = \<lparr>state = 0, next_state = 0, ret_val = None\<rparr>"

text \<open>\<^verbatim>\<open>license_validator_protected.c\<close>, \<^verbatim>\<open>validate_license_key\<close>: the \<^verbatim>\<open>switch\<close>, its cases
  in the order of the file. The open \<^verbatim>\<open>if (user_key == NULL) {\<close> of case 1 holds the
  branch on the same condition, the \<^verbatim>\<open>break\<close>, and the cases 7, 2, 4 and \<^verbatim>\<open>default\<close>.
  In case 2 \<^verbatim>\<open>return 0;\<close> stands ahead of \<^verbatim>\<open>_ret_val = 0; goto _exit;\<close>.\<close>

definition validate_license_key_switch :: "platform \<Rightarrow> c_string \<Rightarrow> flat \<Rightarrow> iteration" where
  "validate_license_key_switch p user_key m =
     (if state m = 0 then
        (if opaque_null_cast then ([''Debug: Should never see this\<newline>''], Inr Aborted)
         else break_switch (m\<lparr>next_state := 1\<rparr>))
      else if state m = 5 then
        (if opaque_volatile 25 then ([], Inr (Exited 1))
         else break_switch (m\<lparr>next_state := 4\<rparr>))
      else if state m = 6 then
        (if opaque_fake_var 53 7810 then ([], Inr (Returned (- 1)))
         else goto_exit (m\<lparr>ret_val := Some (- 1)\<rparr>))
      else if state m = 3 then
        (if opaque_main_address (main_address p) then ([], Inr Aborted)
         else break_switch (m\<lparr>next_state := 2\<rparr>))
      else if state m = 1 then
        (if user_key = None
         then (if user_key = None then break_switch (m\<lparr>next_state := 2\<rparr>)
               else break_switch (m\<lparr>next_state := 3\<rparr>))
         else ([], Inl (m\<lparr>state := next_state m\<rparr>)))
      else if state m = 7 then
        (if opaque_volatile 85 then ([], Inr (Exited 1))
         else break_switch (m\<lparr>next_state := 3\<rparr>))
      else if state m = 2 then ([], Inr (Returned 0))
      else if state m = 4 then
        (if opaque_volatile 33 then ([], Inr (Exited 1))
         else break_switch (m\<lparr>next_state := 4\<rparr>))
      else goto_exit m)"

text \<open>Ahead of the loop stands \<^verbatim>\<open>if ((rand() % 4 >= 4)) { free((void*)0xDEADBEEF); return -1; }\<close>.\<close>

definition validate_license_key_protected ::
    "platform \<Rightarrow> c_string \<Rightarrow> nat \<Rightarrow> (string list \<times> outcome) option" where
  "validate_license_key_protected p user_key fuel =
     (if opaque_rand (rand_result p) then Some ([], Freed_Invalid)
      else run_flat (loop_body (validate_license_key_switch p user_key)) fuel flat_init)"







section \<open>The SimpleObfuscator pass\<close>

text \<open>\<^verbatim>\<open>SimpleObfuscator.cpp\<close> works on an LLVM module. The model keeps what the pass reads
  and writes: a function has a name, a linkage, arguments and basic blocks; an argument
  has a name; an instruction has a name, a type that is \<^verbatim>\<open>void\<close> or not, and is a call
  or not. An empty name is no name (\<^verbatim>\<open>hasName\<close>). A call refers to the called function
  by its position in the module, \<open>None\<close> for an indirect call, so that
  \<^verbatim>\<open>getCalledFunction()->getName()\<close> reads the name the function has at that moment.

  Names live in symbol tables. The table of a module holds the names of its functions
  and of its other global values (\<open>global_names\<close>: variables and aliases); the table of
  a function holds the names of its arguments, of its basic blocks (\<open>block_names\<close>, in the
  order of \<open>blocks\<close>) and of its instructions. Each table has a counter \<^verbatim>\<open>LastUnique\<close>.\<close>

datatype linkage =
    ExternalLinkage | AvailableExternallyLinkage | LinkOnceAnyLinkage | LinkOnceODRLinkage
  | WeakAnyLinkage | WeakODRLinkage | AppendingLinkage | InternalLinkage | PrivateLinkage
  | ExternalWeakLinkage | CommonLinkage

datatype opcode = CallInst "nat option" | OtherInst

record instruction =
  inst_name :: string
  inst_void :: bool
  inst_opcode :: opcode

record argument =
  arg_name :: string

record llvm_function =
  fname :: string
  linkage :: linkage
  args :: "argument list"
  block_names :: "string list"
  blocks :: "instruction list list"
  last_unique :: nat

record llvm_module =
  function_list :: "llvm_function list"
  global_names :: "string list"
  named_metadata :: "string \<rightharpoonup> nat list"
  module_last_unique :: nat

definition startswith :: "string \<Rightarrow> string \<Rightarrow> bool" where
  "startswith s pre \<longleftrightarrow> take (length pre) s = pre"

text \<open>LLVM's own predicates: a function without basic blocks is a declaration, and a
  function is an intrinsic when its name starts with \<^verbatim>\<open>llvm.\<close>.\<close>

definition isDeclaration :: "llvm_function \<Rightarrow> bool" where
  "isDeclaration F \<longleftrightarrow> blocks F = []"

definition isIntrinsic :: "llvm_function \<Rightarrow> bool" where
  "isIntrinsic F \<longleftrightarrow> startswith (fname F) ''llvm.''"

text \<open>\<^verbatim>\<open>std::to_string\<close> of a counter that is not negative: its decimal digits. The
  counters of the pass are \<^verbatim>\<open>int\<close>s that start at 1 and count the entities of one
  module, which stay far below \<^verbatim>\<open>INT_MAX\<close>; they are natural numbers here.\<close>

definition digit_char :: "nat \<Rightarrow> char" where
  "digit_char d = char_of (48 + d)"

function to_string :: "nat \<Rightarrow> string" where
  "to_string n = (if n < 10 then [digit_char n] else to_string (n div 10) @ [digit_char (n mod 10)])"
  by pat_completeness auto
termination
  by (relation "measure id") auto

declare to_string.simps [simp del]

subsection \<open>setName\<close>

text \<open>\<^verbatim>\<open>Value::setName\<close> of LLVM, for a value that has a symbol table. \<open>others\<close> are the
  names of the other values of the table, \<open>old\<close> is the name the value has and \<open>Name\<close>
  the one it is to get; the result is the name the value has afterwards, with the
  counter of the table.
  \<^item> Nothing happens when the value has the name already.
  \<^item> Otherwise the entry of the value is removed and \<^verbatim>\<open>createValueName\<close> enters
    \<open>Name\<close>, if no other value has it.
  \<^item> If one has, \<^verbatim>\<open>makeUniqueName\<close> appends the counter, incremented first, to
    \<open>Name\<close> (behind a dot for a global value) and tries again until the name is free.
  The termination of \<open>makeUniqueName\<close> rests on decimal numerals being unambiguous and
  is proved with that fact, below.\<close>

function makeUniqueName :: "string list \<Rightarrow> string \<Rightarrow> bool \<Rightarrow> nat \<Rightarrow> string \<times> nat" where
  "makeUniqueName others Name AppenDot LastUnique =
     (if Name @ (if AppenDot then ''.'' else []) @ to_string (LastUnique + 1) \<in> set others
      then makeUniqueName others Name AppenDot (LastUnique + 1)
      else (Name @ (if AppenDot then ''.'' else []) @ to_string (LastUnique + 1), LastUnique + 1))"
  by pat_completeness auto

definition createValueName :: "string list \<Rightarrow> string \<Rightarrow> bool \<Rightarrow> nat \<Rightarrow> string \<times> nat" where
  "createValueName others Name AppenDot LastUnique =
     (if Name \<notin> set others then (Name, LastUnique)
      else makeUniqueName others Name AppenDot LastUnique)"

definition setName :: "string list \<Rightarrow> bool \<Rightarrow> nat \<Rightarrow> string \<Rightarrow> string \<Rightarrow> string \<times> nat" where
  "setName others AppenDot LastUnique old Name =
     (if old = Name then (old, LastUnique)
      else createValueName others Name AppenDot LastUnique)"

subsection \<open>renameFunctions\<close>

text \<open>The first loop collects pointers to the functions to rename, here their positions;
  the second loop names them in that order. \<open>setName_function\<close> is \<^verbatim>\<open>F->setName(newName)\<close>
  for the function at position \<open>F\<close>. The lines written to \<^verbatim>\<open>errs()\<close> are left out.\<close>

definition can_rename :: "llvm_function \<Rightarrow> bool" where
  "can_rename F \<longleftrightarrow>
     \<not> isDeclaration F \<and> \<not> isIntrinsic F \<and> \<not> startswith (fname F) ''llvm.'' \<and>
     linkage F \<noteq> ExternalLinkage"

definition functionsToRename :: "llvm_module \<Rightarrow> nat list" where
  "functionsToRename M =
     filter (\<lambda>i. can_rename (function_list M ! i)) [0..<length (function_list M)]"

definition setName_function :: "llvm_module \<Rightarrow> nat \<Rightarrow> string \<Rightarrow> llvm_module" where
  "setName_function M F newName =
     (case setName
             (global_names M @ map fname (take F (function_list M))
                @ map fname (drop (Suc F) (function_list M)))
             True (module_last_unique M) (fname (function_list M ! F)) newName of
        (n, LastUnique) \<Rightarrow>
          M\<lparr>function_list := (function_list M)[F := (function_list M ! F)\<lparr>fname := n\<rparr>],
            module_last_unique := LastUnique\<rparr>)"

fun rename_collected :: "nat list \<Rightarrow> nat \<Rightarrow> llvm_module \<Rightarrow> bool \<Rightarrow> llvm_module \<times> bool" where
  "rename_collected [] funcCounter M modified = (M, modified)"
| "rename_collected (F # rest) funcCounter M modified =
     rename_collected rest (funcCounter + 1)
       (setName_function M F (''f'' @ to_string funcCounter)) True"

definition renameFunctions :: "llvm_module \<Rightarrow> llvm_module \<times> bool" where
  "renameFunctions M = rename_collected (functionsToRename M) 1 M False"

subsection \<open>renameVariables\<close>

text \<open>The loop over the arguments and the loop over the instructions of a block have one
  shape: walk a sequence, and call \<^verbatim>\<open>setName("v" + std::to_string(varCounter++))\<close> on each
  entity that qualifies. \<open>rename_seq\<close> is that loop. The symbol table of the function
  is, at every moment, \<open>left\<close>, the names of the entities still to walk, and \<open>right\<close>:
  \<open>left\<close> holds the names to the left of the sequence and those of the entities walked
  so far, \<open>right\<close> the names to its right. The loop returns the sequence, the counter,
  the flag \<^verbatim>\<open>modified\<close> and the counter of the table.\<close>

fun rename_seq ::
    "('a \<Rightarrow> bool) \<Rightarrow> ('a \<Rightarrow> string) \<Rightarrow> (string \<Rightarrow> 'a \<Rightarrow> 'a) \<Rightarrow> string list \<Rightarrow> 'a list \<Rightarrow> string list \<Rightarrow>
     nat \<Rightarrow> bool \<Rightarrow> nat \<Rightarrow> 'a list \<times> nat \<times> bool \<times> nat" where
  "rename_seq qualifies getName storeName left [] right varCounter modified LastUnique =
     ([], varCounter, modified, LastUnique)"
| "rename_seq qualifies getName storeName left (x # xs) right varCounter modified LastUnique =
     (if qualifies x
      then (case setName (left @ map getName xs @ right) False LastUnique (getName x)
                   (''v'' @ to_string varCounter) of
              (n, LastUnique') \<Rightarrow>
                (case rename_seq qualifies getName storeName (left @ [n]) xs right
                        (varCounter + 1) True LastUnique' of
                   (xs', r) \<Rightarrow> (storeName n x # xs', r)))
      else (case rename_seq qualifies getName storeName (left @ [getName x]) xs right
                   varCounter modified LastUnique of
              (xs', r) \<Rightarrow> (x # xs', r)))"

definition arg_qualifies :: "argument \<Rightarrow> bool" where
  "arg_qualifies Arg \<longleftrightarrow> arg_name Arg \<noteq> []"

definition inst_qualifies :: "instruction \<Rightarrow> bool" where
  "inst_qualifies I \<longleftrightarrow> inst_name I \<noteq> [] \<and> \<not> inst_void I"

definition set_arg_name :: "string \<Rightarrow> argument \<Rightarrow> argument" where
  "set_arg_name n Arg = Arg\<lparr>arg_name := n\<rparr>"

definition set_inst_name :: "string \<Rightarrow> instruction \<Rightarrow> instruction" where
  "set_inst_name n I = I\<lparr>inst_name := n\<rparr>"

fun rename_blocks ::
    "string list \<Rightarrow> instruction list list \<Rightarrow> string list \<Rightarrow> nat \<Rightarrow> bool \<Rightarrow> nat \<Rightarrow>
     instruction list list \<times> nat \<times> bool \<times> nat" where
  "rename_blocks left [] right varCounter modified LastUnique =
     ([], varCounter, modified, LastUnique)"
| "rename_blocks left (BB # BBs) right varCounter modified LastUnique =
     (case rename_seq inst_qualifies inst_name set_inst_name left BB
             (map inst_name (concat BBs) @ right) varCounter modified LastUnique of
        (BB', varCounter', modified', LastUnique') \<Rightarrow>
          (case rename_blocks (left @ map inst_name BB') BBs right
                  varCounter' modified' LastUnique' of
             (BBs', r) \<Rightarrow> (BB' # BBs', r)))"

text \<open>The body of the loop over the functions, for one function that is not a
  declaration: \<^verbatim>\<open>varCounter\<close> starts at 1, the arguments come first, then the blocks.\<close>

definition rename_in_function :: "llvm_function \<Rightarrow> bool \<Rightarrow> llvm_function \<times> bool" where
  "rename_in_function F modified =
     (case rename_seq arg_qualifies arg_name set_arg_name [] (args F)
             (block_names F @ map inst_name (concat (blocks F))) 1 modified (last_unique F) of
        (args', varCounter, modified', LastUnique) \<Rightarrow>
          (case rename_blocks (map arg_name args' @ block_names F) (blocks F) []
                  varCounter modified' LastUnique of
             (blocks', varCounter', modified'', LastUnique') \<Rightarrow>
               (F\<lparr>args := args', blocks := blocks', last_unique := LastUnique'\<rparr>, modified'')))"

fun rename_in_functions :: "llvm_function list \<Rightarrow> bool \<Rightarrow> llvm_function list \<times> bool" where
  "rename_in_functions [] modified = ([], modified)"
| "rename_in_functions (F # Fs) modified =
     (if isDeclaration F
      then (case rename_in_functions Fs modified of (Fs', r) \<Rightarrow> (F # Fs', r))
      else (case rename_in_function F modified of
              (F', modified') \<Rightarrow>
                (case rename_in_functions Fs modified' of (Fs', r) \<Rightarrow> (F' # Fs', r))))"

definition renameVariables :: "llvm_module \<Rightarrow> llvm_module \<times> bool" where
  "renameVariables M =
     (case rename_in_functions (function_list M) False of
        (fs, modified) \<Rightarrow> (M\<lparr>function_list := fs\<rparr>, modified))"

subsection \<open>stripDebugInfo\<close>

text \<open>The first loop collects every call whose called function has a name that starts
  with \<^verbatim>\<open>llvm.dbg.\<close>; \<^verbatim>\<open>eraseFromParent\<close> then unlinks each collected instruction from
  its block, which keeps the other instructions in their order.\<close>

definition is_debug_call :: "llvm_module \<Rightarrow> instruction \<Rightarrow> bool" where
  "is_debug_call M I =
     (case inst_opcode I of
        CallInst (Some CalledFunc) \<Rightarrow>
          CalledFunc < length (function_list M) \<and>
          startswith (fname (function_list M ! CalledFunc)) ''llvm.dbg.''
      | CallInst None \<Rightarrow> False
      | OtherInst \<Rightarrow> False)"

definition toRemove :: "llvm_module \<Rightarrow> instruction list" where
  "toRemove M =
     concat (map (\<lambda>F. concat (map (filter (is_debug_call M)) (blocks F))) (function_list M))"

definition erase_collected :: "llvm_module \<Rightarrow> llvm_function \<Rightarrow> llvm_function" where
  "erase_collected M F = F\<lparr>blocks := map (filter (\<lambda>I. \<not> is_debug_call M I)) (blocks F)\<rparr>"

definition stripDebugInfo :: "llvm_module \<Rightarrow> llvm_module \<times> bool" where
  "stripDebugInfo M =
     (let modified = (toRemove M \<noteq> []);
          M' = M\<lparr>function_list := map (erase_collected M) (function_list M)\<rparr>
      in if named_metadata M' ''llvm.dbg.cu'' \<noteq> None
         then (M'\<lparr>named_metadata := (named_metadata M')(''llvm.dbg.cu'' := None)\<rparr>, True)
         else (M', modified))"

subsection \<open>runOnModule\<close>

definition runOnModule :: "llvm_module \<Rightarrow> llvm_module \<times> bool" where
  "runOnModule M =
     (case renameFunctions M of
        (M1, modified1) \<Rightarrow>
          (case renameVariables M1 of
             (M2, modified2) \<Rightarrow>
               (case stripDebugInfo M2 of
                  (M3, modified3) \<Rightarrow> (M3, modified1 \<or> modified2 \<or> modified3))))"

section \<open>Notions the properties are stated with\<close>








text \<open>The two renaming loops as they run when no name they give is taken: every name is
  stored as it is given.\<close>

fun assign_collected :: "nat list \<Rightarrow> nat \<Rightarrow> llvm_function list \<Rightarrow> llvm_function list" where
  "assign_collected [] c fs = fs"
| "assign_collected (F # rest) c fs =
     assign_collected rest (c + 1) (fs[F := (fs ! F)\<lparr>fname := ''f'' @ to_string c\<rparr>])"

fun assign_seq :: "('a \<Rightarrow> bool) \<Rightarrow> (string \<Rightarrow> 'a \<Rightarrow> 'a) \<Rightarrow> 'a list \<Rightarrow> nat \<Rightarrow> 'a list" where
  "assign_seq q s [] c = []"
| "assign_seq q s (x # xs) c =
     (if q x then s (''v'' @ to_string c) x # assign_seq q s xs (c + 1)
      else x # assign_seq q s xs c)"







section \<open>Properties of the decryption routine\<close>

lemma alloc_request_eq:
  assumes "0 \<le> len" "len < INT_MAX"
  shows "alloc_request len = nat len + 1"
proof -
  have "wrap_int (len + 1) = len + 1"
    using assms by (simp add: wrap_int_def INT_MAX_def)
  moreover have "size_t_of (len + 1) = nat len + 1"
    using assms by (simp add: size_t_of_def INT_MAX_def nat_add_distrib)
  ultimately show ?thesis by (simp add: alloc_request_def)
qed

lemma alloc_request_INT_MAX: "alloc_request INT_MAX = 18446744071562067968"
  by (simp add: alloc_request_def wrap_int_def size_t_of_def INT_MAX_def)

lemma malloc_INT_MAX:
  assumes "malloc_ok malloc"
  shows "malloc (alloc_request INT_MAX) = None"
proof (cases "malloc (alloc_request INT_MAX)")
  case None
  then show ?thesis .
next
  case (Some blk)
  with assms have "alloc_request INT_MAX \<le> PTRDIFF_MAX"
    unfolding malloc_ok_def by blast
  then show ?thesis
    by (simp add: alloc_request_INT_MAX PTRDIFF_MAX_def)
qed

lemma xor_loop_result:
  assumes "i \<le> n" "n \<le> length enc" "n \<le> length dec"
  shows "xor_loop enc key (int n) i dec =
           Inr (take i dec @ map (\<lambda>b. b XOR key) (drop i (take n enc)) @ drop n dec)"
  using assms
proof (induction "n - i" arbitrary: i dec)
  case 0
  then have "i = n" by simp
  then show ?case
    by (subst xor_loop.simps) simp
next
  case (Suc d)
  then have lt: "i < n" and d: "d = n - Suc i" by simp_all
  let ?dec = "dec[i := enc ! i XOR key]"
  have step: "xor_loop enc key (int n) i dec = xor_loop enc key (int n) (Suc i) ?dec"
    using lt Suc.prems by (subst xor_loop.simps) simp
  have ih: "xor_loop enc key (int n) (Suc i) ?dec =
              Inr (take (Suc i) ?dec @ map (\<lambda>b. b XOR key) (drop (Suc i) (take n enc)) @ drop n ?dec)"
    using Suc.hyps(1) [OF d] lt Suc.prems by simp
  have a: "take (Suc i) ?dec = take i dec @ [enc ! i XOR key]"
    using lt Suc.prems by (simp add: take_Suc_conv_app_nth)
  have b: "drop i (take n enc) = enc ! i # drop (Suc i) (take n enc)"
    using lt Suc.prems by (simp add: Cons_nth_drop_Suc [symmetric])
  have c: "drop n ?dec = drop n dec"
    using lt by simp
  show ?case
    by (simp add: step ih a b c)
qed

lemma decrypt_xor_buffer:
  assumes "0 \<le> len" "len < INT_MAX" "length enc = nat len"
    and "malloc_ok malloc" "malloc (alloc_request len) = Some blk"
  shows "decrypt_xor malloc enc len key = Inr (Some (map (\<lambda>b. b XOR key) enc @ [0]))"
proof -
  have req: "alloc_request len = nat len + 1"
    using assms(1,2) by (rule alloc_request_eq)
  have len_blk: "length blk = nat len + 1"
    using assms(4,5) req unfolding malloc_ok_def by force
  have "xor_loop enc key (int (nat len)) 0 blk =
          Inr (take 0 blk @ map (\<lambda>b. b XOR key) (drop 0 (take (nat len) enc)) @ drop (nat len) blk)"
    by (rule xor_loop_result) (simp_all add: assms(3) len_blk)
  then have loop: "xor_loop enc key len 0 blk = Inr (map (\<lambda>b. b XOR key) enc @ drop (nat len) blk)"
    using assms(1,3) by simp
  have "length (drop (nat len) blk) = 1"
    using len_blk by simp
  then obtain z where z: "drop (nat len) blk = [z]"
    by (cases "drop (nat len) blk") auto
  have upd: "(map (\<lambda>b. b XOR key) enc @ [z])[nat len := 0] = map (\<lambda>b. b XOR key) enc @ [0]"
    using assms(3) by (simp add: list_update_append)
  show ?thesis
    using assms(1,3,5) by (simp add: decrypt_xor_def loop z upd)
qed

lemma decrypt_xor_null:
  assumes "malloc (alloc_request len) = None"
  shows "decrypt_xor malloc enc len key = Inr None"
  using assms by (simp add: decrypt_xor_def)

lemma xor_key_twice: "(b XOR key) XOR key = (b :: byte)"
  by (simp add: xor.assoc)

lemma xor_twice: "map (\<lambda>b. b XOR key) (encrypt S key) = S"
  by (induction S) (simp_all add: encrypt_def xor_key_twice)

lemma strcmp_buffer: "strcmp xs (ys @ [0]) = strcmp xs ys"
  by (induction xs ys rule: strcmp.induct) auto

lemma encrypted_password_plain:
  "map (\<lambda>b. b XOR 0xAB) encrypted_password = bytes_of SECRET_PASSWORD"
  by (simp add: encrypted_password_def SECRET_PASSWORD_def bytes_of_def byte_of_char_def)

lemma decrypt_password:
  assumes "malloc_ok malloc" and "malloc (alloc_request 8) \<noteq> None"
  shows "decrypt_xor malloc encrypted_password 8 0xAB = Inr (Some (bytes_of SECRET_PASSWORD @ [0]))"
proof -
  from assms(2) obtain blk where blk: "malloc (alloc_request 8) = Some blk" by auto
  have "decrypt_xor malloc encrypted_password 8 0xAB =
          Inr (Some (map (\<lambda>b. b XOR 0xAB) encrypted_password @ [0]))"
    by (rule decrypt_xor_buffer [OF _ _ _ assms(1) blk])
       (simp_all add: INT_MAX_def encrypted_password_def)
  then show ?thesis by (simp only: encrypted_password_plain)
qed

lemma check_password_obfuscated_eq:
  assumes "malloc_ok malloc" and "malloc (alloc_request 8) \<noteq> None"
  shows "check_password_obfuscated malloc input = Inr (check_password input)"
  by (cases input)
     (simp_all add: check_password_obfuscated_def check_password_def
        decrypt_password [OF assms] strcmp_buffer)

lemma check_password_null_buffer:
  assumes "malloc (alloc_request 8) = None"
  shows "check_password_obfuscated malloc input = Inr 0"
  using assms
  by (cases input) (simp_all add: check_password_obfuscated_def decrypt_xor_null)

text \<open>C9. After string encryption \<^verbatim>\<open>check_password\<close> returns 1 for \<^verbatim>\<open>"admin123"\<close> and 0 for
  \<^verbatim>\<open>"wrong"\<close>, as the function did before, and decrypting the stored ciphertext with the
  key \<^verbatim>\<open>0xAB\<close> yields the literal \<^verbatim>\<open>"admin123"\<close>, followed by its NUL. The decryption
  allocates its buffer, so this is the behaviour when the allocation succeeds.\<close>

theorem check_password_after_encryption:
  assumes "malloc_ok malloc" and "malloc (alloc_request 8) \<noteq> None"
  shows "check_password_obfuscated malloc (Some ''admin123'') = Inr 1 \<and>
         check_password_obfuscated malloc (Some ''wrong'') = Inr 0 \<and>
         check_password (Some ''admin123'') = 1 \<and>
         check_password (Some ''wrong'') = 0 \<and>
         decrypt_xor malloc encrypted_password 8 0xAB = Inr (Some (bytes_of ''admin123'' @ [0]))"
proof -
  have a: "check_password (Some ''admin123'') = 1"
    by (simp add: check_password_def SECRET_PASSWORD_def bytes_of_def byte_of_char_def)
  have b: "check_password (Some ''wrong'') = 0"
    by (simp add: check_password_def SECRET_PASSWORD_def bytes_of_def byte_of_char_def)
  show ?thesis
    using a b decrypt_password [OF assms]
    by (simp add: check_password_obfuscated_eq [OF assms] SECRET_PASSWORD_def)
qed

theorem check_password_after_encryption_witness:
  "check_password_obfuscated (\<lambda>n. if n \<le> 4096 then Some (replicate n 0xCD) else None)
     (Some ''admin123'') = Inr 1 \<and>
   check_password_obfuscated (\<lambda>n. if n \<le> 4096 then Some (replicate n 0xCD) else None)
     (Some ''wrong'') = Inr 0"
  using check_password_after_encryption
          [of "\<lambda>n. if n \<le> 4096 then Some (replicate n 0xCD) else None"]
  by (simp add: malloc_ok_def PTRDIFF_MAX_def alloc_request_def wrap_int_def size_t_of_def)

text \<open>C8. When the decryption routine returns a null buffer, every call site is to check
  for it before use. \<^verbatim>\<open>check_password\<close> does and returns 0. In
  \<^verbatim>\<open>test_api_simple_string_encrypted.c\<close> the constructor stores the null pointers in the
  globals and \<^verbatim>\<open>main\<close> passes them to \<^verbatim>\<open>printf\<close> for \<^verbatim>\<open>%s\<close> with no check.\<close>

theorem null_buffer_printed_unchecked:
  "test_api_process (\<lambda>n. None) = Inl Null_Dereference \<and>
   init_encrypted_strings (\<lambda>n. None) \<lparr>API_KEY = None, DB_PASSWORD = None\<rparr>
     = Inr \<lparr>API_KEY = None, DB_PASSWORD = None\<rparr> \<and>
   check_password_obfuscated (\<lambda>n. None) (Some ''admin123'') = Inr 0"
  by (simp add: test_api_process_def init_encrypted_strings_def xor_decrypt_def
        decrypt_xor_null test_api_main_def printf_s_def check_password_null_buffer)

text \<open>C2. For every non-empty byte string \<open>S\<close> and every non-zero key \<open>K\<close>, the
  decryption routine applied to the encryption of \<open>S\<close> under \<open>K\<close> yields \<open>S\<close> again: the
  buffer it returns holds the bytes of \<open>S\<close>, followed by the terminating NUL. The routine
  takes the length as an \<^verbatim>\<open>int\<close> and returns a buffer when its allocation succeeds.\<close>

theorem decrypt_encrypt_roundtrip:
  assumes "S \<noteq> []" and "K \<noteq> 0" and "int (length S) \<le> INT_MAX"
    and "malloc_ok malloc" and "malloc (alloc_request (int (length S))) \<noteq> None"
  shows "decrypt_xor malloc (encrypt S K) (int (length S)) K = Inr (Some (S @ [0]))"
proof -
  have "int (length S) \<noteq> INT_MAX"
    using malloc_INT_MAX [OF assms(4)] assms(5) by auto
  with assms(3) have lt: "int (length S) < INT_MAX" by simp
  from assms(5) obtain blk where blk: "malloc (alloc_request (int (length S))) = Some blk"
    by auto
  have "decrypt_xor malloc (encrypt S K) (int (length S)) K =
          Inr (Some (map (\<lambda>b. b XOR K) (encrypt S K) @ [0]))"
    by (rule decrypt_xor_buffer [OF _ lt _ assms(4) blk]) (simp_all add: encrypt_def)
  then show ?thesis by (simp add: xor_twice)
qed

theorem decrypt_encrypt_roundtrip_witness:
  "decrypt_xor (\<lambda>n. if n \<le> 4096 then Some (replicate n 0xCD) else None)
     (encrypt [0x68, 0x69] 0xAB) (int (length [0x68, 0x69 :: byte])) 0xAB =
   Inr (Some ([0x68, 0x69] @ [0]))"
  using decrypt_encrypt_roundtrip
          [of "[0x68, 0x69]" "0xAB" "\<lambda>n. if n \<le> 4096 then Some (replicate n 0xCD) else None"]
  by (simp add: malloc_ok_def INT_MAX_def PTRDIFF_MAX_def alloc_request_def wrap_int_def
        size_t_of_def)

text \<open>C10. For every ciphertext \<open>enc\<close> of length \<open>len \<ge> 0\<close> and every key \<open>k\<close>, the routine
  returns \<^verbatim>\<open>NULL\<close> exactly when the allocation fails, and otherwise a buffer of
  \<open>len + 1\<close> bytes whose byte \<open>i\<close> is \<open>enc[i] XOR k\<close> for every \<open>i < len\<close> and whose byte
  \<open>len\<close> is 0, so the buffer is a NUL-terminated string. \<^verbatim>\<open>_decrypt_string\<close> is the same
  routine.\<close>

theorem decrypt_nul_terminated:
  assumes "0 \<le> len" and "len \<le> INT_MAX" and "length enc = nat len" and "malloc_ok malloc"
  shows "(decrypt_xor malloc enc len k = Inr None \<longleftrightarrow> malloc (alloc_request len) = None) \<and>
         (malloc (alloc_request len) \<noteq> None \<longrightarrow>
            (\<exists>buf. decrypt_xor malloc enc len k = Inr (Some buf) \<and>
                   length buf = nat len + 1 \<and>
                   (\<forall>i < nat len. buf ! i = enc ! i XOR k) \<and>
                   buf ! nat len = 0)) \<and>
         decrypt_string malloc enc len k = decrypt_xor malloc enc len k"
proof (cases "malloc (alloc_request len)")
  case None
  then show ?thesis by (simp add: decrypt_xor_null decrypt_string_def)
next
  case (Some blk)
  then have "len \<noteq> INT_MAX"
    using malloc_INT_MAX [OF assms(4)] by auto
  with assms(2) have lt: "len < INT_MAX" by simp
  let ?buf = "map (\<lambda>b. b XOR k) enc @ [0]"
  have res: "decrypt_xor malloc enc len k = Inr (Some ?buf)"
    by (rule decrypt_xor_buffer [OF assms(1) lt assms(3,4) Some])
  have "length ?buf = nat len + 1"
    by (simp add: assms(3))
  moreover have "\<forall>i < nat len. ?buf ! i = enc ! i XOR k"
    by (simp add: assms(3) nth_append)
  moreover have "?buf ! nat len = 0"
    by (simp add: assms(3) nth_append)
  ultimately show ?thesis
    using Some res by (simp add: decrypt_string_def)
qed

theorem decrypt_nul_terminated_witness:
  "decrypt_xor (\<lambda>n. if n \<le> 4096 then Some (replicate n 0xCD) else None) [0xCA, 0xCF] 2 0xAB
     \<noteq> Inr None \<and>
   (\<exists>buf. decrypt_xor (\<lambda>n. if n \<le> 4096 then Some (replicate n 0xCD) else None)
            [0xCA, 0xCF] 2 0xAB = Inr (Some buf) \<and>
          length buf = 3 \<and> (\<forall>i < 2. buf ! i = [0xCA, 0xCF] ! i XOR 0xAB) \<and> buf ! 2 = 0)"
  using decrypt_nul_terminated
          [of 2 "[0xCA, 0xCF]" "\<lambda>n. if n \<le> 4096 then Some (replicate n 0xCD) else None" "0xAB"]
  by (simp add: malloc_ok_def INT_MAX_def PTRDIFF_MAX_def alloc_request_def wrap_int_def
        size_t_of_def)

section \<open>Properties of the opaque predicates and of the flattened functions\<close>

lemma c_rem_less:
  assumes "0 < b"
  shows "c_rem a b < b"
proof -
  define x where "x = \<bar>a\<bar> mod \<bar>b\<bar>"
  have x: "0 \<le> x" "x < b"
    using assms by (simp_all add: x_def)
  have "sgn a * x \<le> x"
    using x(1) by (cases "a < 0"; cases "a = 0") (simp_all add: sgn_if)
  then show ?thesis
    using x(2) by (simp add: c_rem_def x_def)
qed

lemma opaque_rand_false: "\<not> opaque_rand r"
  using c_rem_less [of 4 r] by (simp add: opaque_rand_def)

lemma opaque_null_cast_false: "\<not> opaque_null_cast"
  by (simp add: opaque_null_cast_def int_to_pointer_def)




lemma loop_body_leaves: "\<exists>printed r. loop_body switch m = (printed, Inr r)"
  by (cases "switch m"; rename_tac printed c; case_tac c) (simp_all add: loop_body_def)

lemma flat_init_fields: "state flat_init = 0" "next_state flat_init = 0" "ret_val flat_init = None"
  by (simp_all add: flat_init_def)

lemma validate_switch_entry:
  "validate_license_key_switch p user_key flat_init = ([], Inl (flat_init\<lparr>next_state := 1\<rparr>))"
  by (simp add: validate_license_key_switch_def flat_init_def break_switch_def
        opaque_null_cast_false)


lemma validate_body_entry:
  "loop_body (validate_license_key_switch p user_key) flat_init = ([], Inr Returned_Indeterminate)"
  by (simp add: loop_body_def validate_switch_entry exit_label_def flat_init_fields)


lemma validate_protected_run:
  "validate_license_key_protected p user_key (Suc fuel) = Some ([], Returned_Indeterminate)"
  by (simp add: validate_license_key_protected_def opaque_rand_false validate_body_entry)




lemma validate_master_key:
  "validate_license_key (Some MASTER_KEY) =
     ([''License valid - Professional edition activated\<newline>''], 1)"
  by (simp add: validate_license_key_def MASTER_KEY_def KEY_LENGTH_def strlen_def bytes_of_def
        byte_of_char_def)

text \<open>C1. The flattened function is to produce what the original produces, output and
  return value, for every input. The original \<^verbatim>\<open>validate_license_key\<close> prints the line of
  the professional edition and returns 1 for the master key, and returns 0 for \<^verbatim>\<open>NULL\<close>.
  The flattened one of \<^verbatim>\<open>license_validator_protected.c\<close> does the same thing for every
  key on every platform: it dispatches state 0, leaves the \<^verbatim>\<open>switch\<close>, and returns
  \<^verbatim>\<open>_ret_val\<close>, to which nothing was assigned, without having printed.\<close>

theorem flattened_validate_returns_unset_value:
  "validate_license_key (Some MASTER_KEY) =
     ([''License valid - Professional edition activated\<newline>''], 1) \<and>
   validate_license_key None = ([], 0) \<and>
   validate_license_key_protected p user_key (Suc fuel) = Some ([], Returned_Indeterminate)"
  by (simp add: validate_master_key validate_protected_run) (simp add: validate_license_key_def)

theorem flattened_validate_returns_unset_value_witness:
  "validate_license_key (Some MASTER_KEY) =
     ([''License valid - Professional edition activated\<newline>''], 1) \<and>
   validate_license_key_protected \<lparr>rand_result = 1804289383, main_address = 0x401136\<rparr>
     (Some MASTER_KEY) (Suc 0) = Some ([], Returned_Indeterminate)"
  using flattened_validate_returns_unset_value
          [of "\<lparr>rand_result = 1804289383, main_address = 0x401136\<rparr>" "Some MASTER_KEY" 0]
  by blast




section \<open>Properties of the SimpleObfuscator pass\<close>

subsection \<open>Decimal numerals are unambiguous\<close>

lemma to_string_nonempty: "to_string n \<noteq> []"
  by (subst to_string.simps) simp

lemma digit_char_inj:
  assumes "a < 10" and "b < 10" and "digit_char a = digit_char b"
  shows "a = b"
proof -
  have "(of_char (digit_char a) :: nat) = of_char (digit_char b)"
    using assms(3) by simp
  then have "(48 + a) mod 256 = (48 + b) mod 256"
    by (simp add: digit_char_def)
  then show ?thesis
    using assms(1,2) by simp
qed

lemma to_string_inj: "to_string n = to_string m \<Longrightarrow> n = m"
proof (induction n arbitrary: m rule: to_string.induct)
  case (1 n)
  show ?case
  proof (cases "n < 10")
    case n: True
    show ?thesis
    proof (cases "m < 10")
      case True
      with n "1.prems" show ?thesis
        by (simp add: to_string.simps [of n] to_string.simps [of m] digit_char_inj)
    next
      case False
      with n "1.prems" to_string_nonempty [of "m div 10"] show ?thesis
        by (simp add: to_string.simps [of n] to_string.simps [of m] Cons_eq_append_conv)
    qed
  next
    case n: False
    show ?thesis
    proof (cases "m < 10")
      case True
      with n "1.prems" to_string_nonempty [of "n div 10"] show ?thesis
        by (simp add: to_string.simps [of n] to_string.simps [of m] append_eq_Cons_conv)
    next
      case False
      with n "1.prems" have eq: "to_string (n div 10) = to_string (m div 10)"
        and d: "digit_char (n mod 10) = digit_char (m mod 10)"
        by (simp_all add: to_string.simps [of n] to_string.simps [of m])
      have "n div 10 = m div 10"
        using n eq by (rule "1.IH")
      moreover have "n mod 10 = m mod 10"
        using d by (intro digit_char_inj) simp_all
      ultimately show ?thesis
        by (metis div_mult_mod_eq)
    qed
  qed
qed

lemma v_name_inj: "inj (\<lambda>k. ''v'' @ to_string k)"
  by (rule injI) (simp add: to_string_inj)


text \<open>With that, \<open>makeUniqueName\<close> terminates: the numerals it has yet to try and finds
  taken become fewer with each step.\<close>

termination makeUniqueName
proof (relation "measure (\<lambda>(others, Name, AppenDot, LastUnique).
          card {n. LastUnique < n \<and>
                   Name @ (if AppenDot then ''.'' else []) @ to_string n \<in> set others})",
       goal_cases)
  case 1
  show ?case by simp
next
  case (2 others Name AppenDot LastUnique)
  let ?cand = "\<lambda>n. Name @ (if AppenDot then ''.'' else []) @ to_string n"
  let ?S = "\<lambda>L. {n. L < n \<and> ?cand n \<in> set others}"
  have "inj ?cand"
    by (rule injI) (simp add: to_string_inj)
  then have "finite (?cand -` set others)"
    by (intro finite_vimageI) simp_all
  then have fin: "finite (?S LastUnique)"
    by (rule rev_finite_subset) auto
  have "LastUnique + 1 \<in> ?S LastUnique" "LastUnique + 1 \<notin> ?S (LastUnique + 1)"
    using 2 by simp_all
  moreover have "?S (LastUnique + 1) \<subseteq> ?S LastUnique"
    by auto
  ultimately have "?S (LastUnique + 1) \<subset> ?S LastUnique"
    by blast
  then have "card (?S (LastUnique + 1)) < card (?S LastUnique)"
    using fin by (rule psubset_card_mono [rotated])
  then show ?case by simp
qed

declare makeUniqueName.simps [simp del]

subsection \<open>setName\<close>

lemma f_name_inj: "pre @ to_string j = pre @ to_string k \<longleftrightarrow> j = k"
  by (auto dest: to_string_inj)






subsection \<open>renameFunctions\<close>



lemma setName_function_rest:
  "global_names (setName_function M F newName) = global_names M"
  "named_metadata (setName_function M F newName) = named_metadata M"
  by (simp_all add: setName_function_def case_prod_beta)








lemma assign_collected_length: "length (assign_collected ps c fs) = length fs"
  by (induction ps arbitrary: c fs) simp_all















subsection \<open>The renaming loop when no name is taken\<close>

lemma assign_seq_length: "length (assign_seq q s xs c) = length xs"
  by (induction xs arbitrary: c) simp_all




subsection \<open>The renaming loop in general\<close>






subsection \<open>The loop over the blocks\<close>









subsection \<open>renameVariables, function by function\<close>










subsection \<open>renameVariables\<close>











subsection \<open>stripDebugInfo\<close>









end
